theory Spec2Isabelle
  imports Main "HOL-Library.Word"
begin

section \<open>The question handler of \<^verbatim>\<open>static/js/app.js\<close>\<close>

text \<open>
  The repository is one browser-side function, \<^verbatim>\<open>askQuestion\<close>. It reads the text
  input \<^verbatim>\<open>question\<close>, posts the trimmed text to \<^verbatim>\<open>/ask\<close> and shows the reply in the
  element \<^verbatim>\<open>response\<close>, toggling the class \<^verbatim>\<open>hidden\<close> of the element \<^verbatim>\<open>loader\<close>.

  The function is embedded as a state transformer on the part of the page it touches, and
  the promise chain it registers as the transitions of a small state machine whose events
  are the settlements of the two platform promises (\<^verbatim>\<open>fetch\<close> and \<^verbatim>\<open>response.json()\<close>).
  The platform functions the handler calls (\<^verbatim>\<open>trim\<close>, \<^verbatim>\<open>JSON.stringify\<close>, the string
  conversion of the \<^verbatim>\<open>innerText\<close> setter, \<^verbatim>\<open>classList\<close>) follow ECMAScript and the DOM
  standard on the values that can occur here.
\<close>

subsection \<open>Strings\<close>

text \<open>
  An ECMAScript string is a sequence of 16-bit code units. String literals of the source
  are ASCII and are written through \<open>js\<close>.
\<close>

type_synonym js_string = "16 word list"

definition js :: "string \<Rightarrow> js_string" where
  "js s = map (\<lambda>c. of_nat (of_char c)) s"

text \<open>
  \<^verbatim>\<open>String.prototype.trim\<close> strips the code points of WhiteSpace (TAB, VT, FF, ZWNBSP and
  the category Zs) and of LineTerminator (LF, CR, LS, PS) from both ends. All of them lie
  in the basic plane, so the test is one on code units.
\<close>

definition is_white_space :: "16 word \<Rightarrow> bool" where
  "is_white_space c \<longleftrightarrow>
     c = 0x0009 \<or> c = 0x000A \<or> c = 0x000B \<or> c = 0x000C \<or> c = 0x000D \<or>
     c = 0x0020 \<or> c = 0x00A0 \<or> c = 0x1680 \<or> (0x2000 \<le> c \<and> c \<le> 0x200A) \<or>
     c = 0x2028 \<or> c = 0x2029 \<or> c = 0x202F \<or> c = 0x205F \<or> c = 0x3000 \<or> c = 0xFEFF"

definition trim :: "js_string \<Rightarrow> js_string" where
  "trim s = rev (dropWhile is_white_space (rev (dropWhile is_white_space s)))"

subsection \<open>Values\<close>

text \<open>
  The values the handler meets: \<^verbatim>\<open>undefined\<close> and what \<^verbatim>\<open>JSON.parse\<close> can build. Numbers
  are floating point, which is not modelled: a number is carried as the string that
  \<^verbatim>\<open>Number::toString\<close> gives for it, the only thing the handler ever asks of a number. An
  object is the list of its own properties in property order.
\<close>

datatype js_value =
    Undefined
  | Null
  | Bool bool
  | Num js_string
  | Str js_string
  | Arr "js_value list"
  | Obj "(js_string \<times> js_value) list"

text \<open>
  What a callback can throw and what a promise can reject with. The two platform promises
  reject with a reason of their own (a \<^verbatim>\<open>TypeError\<close> for an unreachable server, a
  \<^verbatim>\<open>SyntaxError\<close> for a body that is not JSON), kept as name and message; the other two
  errors are thrown by the engine inside the success callback.
\<close>

datatype js_error =
    PlatformError js_string js_string
  | TypeError_property_of_null
  | TypeError_to_primitive


subsection \<open>String conversion\<close>

text \<open>
  \<^verbatim>\<open>ToString\<close> of ECMAScript. An array converts through \<^verbatim>\<open>Array.prototype.join\<close>, where
  \<^verbatim>\<open>undefined\<close> and \<^verbatim>\<open>null\<close> elements give the empty string. A plain object converts
  through \<^verbatim>\<open>OrdinaryToPrimitive\<close>: an own property \<^verbatim>\<open>toString\<close> is never callable here (no
  value of \<open>js_value\<close> is a function) and \<^verbatim>\<open>Object.prototype.valueOf\<close> returns the object
  itself, so the conversion throws a \<^verbatim>\<open>TypeError\<close>; without it the inherited
  \<^verbatim>\<open>Object.prototype.toString\<close> answers.
\<close>

fun ToString :: "js_value \<Rightarrow> js_error + js_string"
  and join_comma :: "js_value list \<Rightarrow> js_error + js_string" where
  "ToString Undefined = Inr (js ''undefined'')"
| "ToString Null = Inr (js ''null'')"
| "ToString (Bool b) = Inr (js (if b then ''true'' else ''false''))"
| "ToString (Num r) = Inr r"
| "ToString (Str s) = Inr s"
| "ToString (Arr vs) = join_comma vs"
| "ToString (Obj ps) =
     (if js ''toString'' \<in> fst ` set ps then Inl TypeError_to_primitive
      else Inr (js ''[object Object]''))"
| "join_comma [] = Inr []"
| "join_comma (v # vs) =
     (case (if v = Undefined \<or> v = Null then Inr [] else ToString v) of
        Inl e \<Rightarrow> Inl e
      | Inr s \<Rightarrow>
          if vs = [] then Inr s
          else (case join_comma vs of Inl e \<Rightarrow> Inl e | Inr t \<Rightarrow> Inr (s @ js '','' @ t)))"

text \<open>
  The \<^verbatim>\<open>innerText\<close> attribute is a \<^verbatim>\<open>[LegacyNullToEmptyString] DOMString\<close>: the setter
  turns \<^verbatim>\<open>null\<close> into the empty string and everything else through \<^verbatim>\<open>ToString\<close>.
\<close>

definition to_DOMString :: "js_value \<Rightarrow> js_error + js_string" where
  "to_DOMString v = (case v of Null \<Rightarrow> Inr [] | _ \<Rightarrow> ToString v)"

text \<open>
  The expression \<^verbatim>\<open>data.response\<close>. Reading a property of \<^verbatim>\<open>undefined\<close> or \<^verbatim>\<open>null\<close>
  throws; an object answers with its own property, and since no prototype (of objects,
  arrays, strings, numbers or booleans) has a property of that name, every other read
  gives \<^verbatim>\<open>undefined\<close>.
\<close>

definition response_of :: "js_value \<Rightarrow> js_error + js_value" where
  "response_of data =
     (case data of
        Undefined \<Rightarrow> Inl TypeError_property_of_null
      | Null \<Rightarrow> Inl TypeError_property_of_null
      | Obj ps \<Rightarrow> Inr (case map_of ps (js ''response'') of None \<Rightarrow> Undefined | Some v \<Rightarrow> v)
      | _ \<Rightarrow> Inr Undefined)"

subsection \<open>\<^verbatim>\<open>JSON.stringify\<close>\<close>

definition hex_digit :: "nat \<Rightarrow> 16 word" where
  "hex_digit n = (js ''0123456789abcdef'') ! (n mod 16)"

definition UnicodeEscape :: "16 word \<Rightarrow> js_string" where
  "UnicodeEscape c =
     js [CHR 0x5C, CHR ''u''] @
     [hex_digit (unat c div 4096), hex_digit (unat c div 256),
      hex_digit (unat c div 16), hex_digit (unat c)]"

definition is_leading_surrogate :: "16 word \<Rightarrow> bool" where
  "is_leading_surrogate c \<longleftrightarrow> 0xD800 \<le> c \<and> c \<le> 0xDBFF"

definition is_trailing_surrogate :: "16 word \<Rightarrow> bool" where
  "is_trailing_surrogate c \<longleftrightarrow> 0xDC00 \<le> c \<and> c \<le> 0xDFFF"

text \<open>
  The escape table of \<^verbatim>\<open>QuoteJSONString\<close>: backspace, tab, line feed, form feed,
  carriage return, the double quote and the backslash have a two-character escape; any
  other control character below U+0020 is written \<^verbatim>\<open>\uXXXX\<close>.
\<close>

definition escape_unit :: "16 word \<Rightarrow> js_string" where
  "escape_unit c =
     (if c = 0x08 then js [CHR 0x5C, CHR ''b'']
      else if c = 0x09 then js [CHR 0x5C, CHR ''t'']
      else if c = 0x0A then js [CHR 0x5C, CHR ''n'']
      else if c = 0x0C then js [CHR 0x5C, CHR ''f'']
      else if c = 0x0D then js [CHR 0x5C, CHR ''r'']
      else if c = 0x22 then js [CHR 0x5C, CHR 0x22]
      else if c = 0x5C then js [CHR 0x5C, CHR 0x5C]
      else if c < 0x20 then UnicodeEscape c
      else [c])"

text \<open>
  The string is read by code points: a leading surrogate followed by a trailing one is
  one code point and is copied; a surrogate on its own is escaped.
\<close>

fun quote_units :: "js_string \<Rightarrow> js_string" where
  "quote_units [] = []"
| "quote_units [c] =
     (if is_leading_surrogate c \<or> is_trailing_surrogate c then UnicodeEscape c
      else escape_unit c)"
| "quote_units (c # d # ds) =
     (if is_leading_surrogate c \<and> is_trailing_surrogate d then c # d # quote_units ds
      else if is_leading_surrogate c \<or> is_trailing_surrogate c
        then UnicodeEscape c @ quote_units (d # ds)
      else escape_unit c @ quote_units (d # ds))"

definition QuoteJSONString :: "js_string \<Rightarrow> js_string" where
  "QuoteJSONString s = js [CHR 0x22] @ quote_units s @ js [CHR 0x22]"

fun join_with :: "js_string \<Rightarrow> js_string list \<Rightarrow> js_string" where
  "join_with sep [] = []"
| "join_with sep [x] = x"
| "join_with sep (x # y # ys) = x @ sep @ join_with sep (y # ys)"

text \<open>
  \<^verbatim>\<open>JSON.stringify\<close> with one argument (\<^verbatim>\<open>SerializeJSONProperty\<close> with an empty gap). The
  result \<open>None\<close> is \<^verbatim>\<open>undefined\<close>. A property whose value serialises to \<^verbatim>\<open>undefined\<close> is
  left out of an object and written \<^verbatim>\<open>null\<close> in an array; a number that is not finite is
  written \<^verbatim>\<open>null\<close>. No value here has a callable \<^verbatim>\<open>toJSON\<close>.
\<close>

fun JSON_stringify :: "js_value \<Rightarrow> js_string option"
  and serialize_members :: "(js_string \<times> js_value) list \<Rightarrow> js_string list"
  and serialize_elements :: "js_value list \<Rightarrow> js_string list" where
  "JSON_stringify Undefined = None"
| "JSON_stringify Null = Some (js ''null'')"
| "JSON_stringify (Bool b) = Some (js (if b then ''true'' else ''false''))"
| "JSON_stringify (Num r) =
     Some (if r = js ''NaN'' \<or> r = js ''Infinity'' \<or> r = js ''-Infinity'' then js ''null'' else r)"
| "JSON_stringify (Str s) = Some (QuoteJSONString s)"
| "JSON_stringify (Arr vs) = Some (js ''['' @ join_with (js '','') (serialize_elements vs) @ js '']'')"
| "JSON_stringify (Obj ps) = Some (js ''{'' @ join_with (js '','') (serialize_members ps) @ js ''}'')"
| "serialize_members [] = []"
| "serialize_members (kv # ps) =
     (case JSON_stringify (snd kv) of
        None \<Rightarrow> serialize_members ps
      | Some s \<Rightarrow> (QuoteJSONString (fst kv) @ js '':'' @ s) # serialize_members ps)"
| "serialize_elements [] = []"
| "serialize_elements (v # vs) =
     (case JSON_stringify v of None \<Rightarrow> js ''null'' | Some s \<Rightarrow> s) # serialize_elements vs"

subsection \<open>The page\<close>

text \<open>
  The handler looks three elements up by their identifiers and the page is taken to have
  them: a text input, an output element and the loading indicator. Of each only what the
  handler reads or writes is kept. Two logs stand for the outside world: the requests
  handed to \<^verbatim>\<open>fetch\<close>, in order, and the arguments of \<^verbatim>\<open>console.error\<close>. A promise chain
  that has not settled is an entry of \<open>pending\<close>, under the index of its request in the log.
\<close>

record request =
  req_url :: js_string
  req_method :: js_string
  req_headers :: "(js_string \<times> js_string) list"
  req_body :: "js_string option"

datatype stage = AwaitingFetch | AwaitingJson

record page =
  question_value :: js_string
  response_innerText :: js_string
  loader_classList :: "js_string list"
  console_error :: "js_error list"
  requests :: "request list"
  pending :: "nat \<rightharpoonup> stage"

text \<open>\<^verbatim>\<open>DOMTokenList.remove\<close> and \<^verbatim>\<open>DOMTokenList.add\<close> on the ordered set of class names.\<close>

definition classList_remove :: "js_string \<Rightarrow> js_string list \<Rightarrow> js_string list" where
  "classList_remove t ts = filter (\<lambda>x. x \<noteq> t) ts"

definition classList_add :: "js_string \<Rightarrow> js_string list \<Rightarrow> js_string list" where
  "classList_add t ts = (if t \<in> set ts then ts else ts @ [t])"

definition loader_hidden :: "page \<Rightarrow> bool" where
  "loader_hidden p \<longleftrightarrow> js ''hidden'' \<in> set (loader_classList p)"

text \<open>
  \<^verbatim>\<open>fetch\<close> hands the request to the network and returns a promise; the chain the handler
  attaches to it waits for the reply.
\<close>

definition fetch :: "request \<Rightarrow> page \<Rightarrow> page" where
  "fetch r p =
     p\<lparr>requests := requests p @ [r],
       pending := (pending p)(length (requests p) \<mapsto> AwaitingFetch)\<rparr>"

subsection \<open>The handler\<close>

text \<open>
  The synchronous part of \<^verbatim>\<open>askQuestion\<close>, statement by statement. The empty string is
  the only string that is falsy.
\<close>

definition askQuestion :: "page \<Rightarrow> page" where
  "askQuestion p =
     (let question = trim (question_value p) in
      if question = [] then p\<lparr>response_innerText := js '' Please enter a question.''\<rparr>
      else
        let p1 = p\<lparr>response_innerText := []\<rparr>;
            p2 = p1\<lparr>loader_classList := classList_remove (js ''hidden'') (loader_classList p1)\<rparr>
        in fetch
             \<lparr>req_url = js ''/ask'',
              req_method = js ''POST'',
              req_headers = [(js ''Content-Type'', js ''application/json'')],
              req_body = JSON_stringify (Obj [(js ''question'', Str question)])\<rparr>
             p2)"

text \<open>
  The callback \<^verbatim>\<open>data => { ... }\<close> of the second \<^verbatim>\<open>then\<close>. It hides the loader first; the
  assignment that follows can throw, in the property read or in the string conversion of
  the setter, and what the callback did before stays done.
\<close>

definition on_data :: "js_value \<Rightarrow> page \<Rightarrow> js_error option \<times> page" where
  "on_data data p =
     (let p1 = p\<lparr>loader_classList := classList_add (js ''hidden'') (loader_classList p)\<rparr> in
      case response_of data of
        Inl e \<Rightarrow> (Some e, p1)
      | Inr v \<Rightarrow>
          (case to_DOMString v of
             Inl e \<Rightarrow> (Some e, p1)
           | Inr s \<Rightarrow> (None, p1\<lparr>response_innerText := s\<rparr>)))"

text \<open>The callback \<^verbatim>\<open>err => { ... }\<close> of \<^verbatim>\<open>catch\<close>.\<close>

definition on_error :: "js_error \<Rightarrow> page \<Rightarrow> page" where
  "on_error err p =
     (let p1 = p\<lparr>loader_classList := classList_add (js ''hidden'') (loader_classList p)\<rparr>;
          p2 = p1\<lparr>response_innerText := js '' Error connecting to server.''\<rparr>
      in p2\<lparr>console_error := console_error p2 @ [err]\<rparr>)"

subsection \<open>Events\<close>

text \<open>
  What can happen to the page: the handler is invoked, the user edits the input, or one of
  the two platform promises of a request settles. \<^verbatim>\<open>fetch\<close> fulfils with a response of any
  HTTP status and rejects only when no response arrives; the first callback,
  \<^verbatim>\<open>response => response.json()\<close>, reads nothing but the body. A rejection anywhere in the
  chain, and an exception of the second callback, reach the \<^verbatim>\<open>catch\<close> callback. The
  reactions of one settlement run as microtasks, with no other event in between.
\<close>

datatype event =
    AskQuestion
  | Edit js_string
  | FetchFulfilled nat nat
  | FetchRejected nat js_error
  | JsonFulfilled nat js_value
  | JsonRejected nat js_error

definition settled :: "nat \<Rightarrow> page \<Rightarrow> page" where
  "settled i p = p\<lparr>pending := (pending p)(i := None)\<rparr>"

text \<open>
  The end of the chain on a parsed body, \<^verbatim>\<open>.then(data => ...).catch(err => ...)\<close>: the
  success callback runs, and the \<^verbatim>\<open>catch\<close> callback after it when it threw.
\<close>

definition then_catch :: "js_value \<Rightarrow> page \<Rightarrow> page" where
  "then_catch data p =
     (case on_data data p of
        (None, p') \<Rightarrow> p'
      | (Some err, p') \<Rightarrow> on_error err p')"

fun step :: "event \<Rightarrow> page \<Rightarrow> page" where
  "step AskQuestion p = askQuestion p"
| "step (Edit v) p = p\<lparr>question_value := v\<rparr>"
| "step (FetchFulfilled i status) p =
     (if pending p i = Some AwaitingFetch then p\<lparr>pending := (pending p)(i \<mapsto> AwaitingJson)\<rparr>
      else p)"
| "step (FetchRejected i err) p =
     (if pending p i = Some AwaitingFetch then on_error err (settled i p) else p)"
| "step (JsonFulfilled i data) p =
     (if pending p i = Some AwaitingJson then then_catch data (settled i p) else p)"
| "step (JsonRejected i err) p =
     (if pending p i = Some AwaitingJson then on_error err (settled i p) else p)"

definition run :: "event list \<Rightarrow> page \<Rightarrow> page" where
  "run es p = foldl (\<lambda>q e. step e q) p es"

text \<open>
  An event completes a request when it runs the success or the failure continuation of a
  chain that is waiting for it.
\<close>

fun completes :: "event \<Rightarrow> page \<Rightarrow> bool" where
  "completes (FetchRejected i err) p \<longleftrightarrow> pending p i = Some AwaitingFetch"
| "completes (JsonFulfilled i data) p \<longleftrightarrow> pending p i = Some AwaitingJson"
| "completes (JsonRejected i err) p \<longleftrightarrow> pending p i = Some AwaitingJson"
| "completes _ p \<longleftrightarrow> False"

fun completes_none :: "event list \<Rightarrow> page \<Rightarrow> bool" where
  "completes_none [] p \<longleftrightarrow> True"
| "completes_none (e # es) p \<longleftrightarrow> \<not> completes e p \<and> completes_none es (step e p)"

subsection \<open>A request awaited to its end\<close>

text \<open>
  What the server and the network do with one request: no response at all, or a response
  with its status whose body does or does not parse as JSON.
\<close>

datatype body = NotJson js_error | Json js_value

datatype outcome = Unreachable js_error | Replied nat body

fun settle :: "nat \<Rightarrow> outcome \<Rightarrow> page \<Rightarrow> page" where
  "settle i (Unreachable err) p = step (FetchRejected i err) p"
| "settle i (Replied status (NotJson err)) p =
     step (JsonRejected i err) (step (FetchFulfilled i status) p)"
| "settle i (Replied status (Json data)) p =
     step (JsonFulfilled i data) (step (FetchFulfilled i status) p)"

text \<open>
  One submission awaited to completion against a server: the handler runs, and the request
  it issued, if any, is settled the way the server answers it.
\<close>

definition ask_and_await :: "(request \<Rightarrow> outcome) \<Rightarrow> page \<Rightarrow> page" where
  "ask_and_await server p =
     (let p' = askQuestion p in
      if requests p' = requests p then p'
      else settle (length (requests p)) (server (last (requests p'))) p')"

subsection \<open>The text a settled request leaves\<close>

text \<open>
  The text of the output element after a request has settled, as a function of the outcome
  alone; \<open>settle_text\<close> below proves that the handler shows exactly this.
\<close>

definition text_shown :: "outcome \<Rightarrow> js_string" where
  "text_shown out =
     (case out of
        Unreachable err \<Rightarrow> js '' Error connecting to server.''
      | Replied status (NotJson err) \<Rightarrow> js '' Error connecting to server.''
      | Replied status (Json data) \<Rightarrow>
          (case response_of data of
             Inl e \<Rightarrow> js '' Error connecting to server.''
           | Inr v \<Rightarrow>
               (case to_DOMString v of
                  Inl e \<Rightarrow> js '' Error connecting to server.''
                | Inr s \<Rightarrow> s)))"

subsection \<open>Example pages\<close>

text \<open>
  \<open>typed_page\<close> is a fresh page with a question typed in, padded with blanks.
  \<open>blank_page\<close> has only white space in the input (a space, a tab, a line feed and a
  no-break space), a visible loader and an earlier request still in flight.
  \<open>ask_request\<close> is the request that \<open>typed_page\<close> leads to. The two errors are the
  rejection reasons of an unreachable server and of a body that is not JSON. The replies
  are \<^verbatim>\<open>{"response": {"toString": null}}\<close> with status 200, \<^verbatim>\<open>{"error": "boom"}\<close> with
  status 500, and a server that answers every request with \<^verbatim>\<open>{"response": "42"}\<close>.
  \<open>quiet_events\<close> is a sequence of events in which no request succeeds or fails.
\<close>

definition ask_request :: request where
  "ask_request =
     \<lparr>req_url = js ''/ask'', req_method = js ''POST'',
      req_headers = [(js ''Content-Type'', js ''application/json'')],
      req_body = Some (js ''{\"question\":\"hi there\"}'')\<rparr>"

definition typed_page :: page where
  "typed_page =
     \<lparr>question_value = js ''  hi there '', response_innerText = js ''old answer'',
      loader_classList = [js ''spinner'', js ''hidden''], console_error = [],
      requests = [], pending = Map.empty\<rparr>"

definition blank_page :: page where
  "blank_page =
     \<lparr>question_value = [0x20, 0x09, 0x0A, 0xA0], response_innerText = [],
      loader_classList = [js ''spinner''], console_error = [],
      requests = [ask_request], pending = [0 \<mapsto> AwaitingFetch]\<rparr>"

definition connection_refused :: js_error where
  "connection_refused = PlatformError (js ''TypeError'') (js ''Failed to fetch'')"

definition unexpected_token :: js_error where
  "unexpected_token = PlatformError (js ''SyntaxError'') (js ''Unexpected token'')"

definition unprintable_reply :: outcome where
  "unprintable_reply = Replied 200 (Json (Obj [(js ''response'', Obj [(js ''toString'', Null)])]))"

definition server_error_reply :: outcome where
  "server_error_reply = Replied 500 (Json (Obj [(js ''error'', Str (js ''boom''))]))"

definition answer_42 :: "request \<Rightarrow> outcome" where
  "answer_42 r = Replied 200 (Json (Obj [(js ''response'', Str (js ''42''))]))"

definition quiet_events :: "event list" where
  "quiet_events = [FetchFulfilled 0 200, Edit (js ''next''), AskQuestion, FetchFulfilled 1 200]"

subsection \<open>Trimming\<close>

lemma dropWhile_all_iff: "(\<forall>x\<in>set (dropWhile P xs). P x) \<longleftrightarrow> dropWhile P xs = []"
proof
  assume all: "\<forall>x\<in>set (dropWhile P xs). P x"
  show "dropWhile P xs = []"
  proof (rule ccontr)
    assume ne: "dropWhile P xs \<noteq> []"
    then have "\<not> P (hd (dropWhile P xs))" by (rule hd_dropWhile)
    moreover from ne have "hd (dropWhile P xs) \<in> set (dropWhile P xs)" by simp
    ultimately show False using all by blast
  qed
next
  assume e: "dropWhile P xs = []"
  show "\<forall>x\<in>set (dropWhile P xs). P x" unfolding e by simp
qed

lemma trim_Nil_iff: "trim s = [] \<longleftrightarrow> list_all is_white_space s"
proof -
  have "trim s = [] \<longleftrightarrow> (\<forall>x\<in>set (dropWhile is_white_space s). is_white_space x)"
    by (simp add: trim_def dropWhile_eq_Nil_conv)
  also have "\<dots> \<longleftrightarrow> dropWhile is_white_space s = []" by (rule dropWhile_all_iff)
  also have "\<dots> \<longleftrightarrow> list_all is_white_space s" by (simp add: dropWhile_eq_Nil_conv list_all_iff)
  finally show ?thesis .
qed

subsection \<open>The handler and its callbacks, field by field\<close>

lemma askQuestion_empty:
  "trim (question_value p) = [] \<Longrightarrow>
   askQuestion p = p\<lparr>response_innerText := js '' Please enter a question.''\<rparr>"
  by (simp add: askQuestion_def)

lemma askQuestion_valid:
  "trim (question_value p) \<noteq> [] \<Longrightarrow>
   askQuestion p =
     fetch \<lparr>req_url = js ''/ask'', req_method = js ''POST'',
            req_headers = [(js ''Content-Type'', js ''application/json'')],
            req_body = JSON_stringify (Obj [(js ''question'', Str (trim (question_value p)))])\<rparr>
       (p\<lparr>response_innerText := [],
          loader_classList := classList_remove (js ''hidden'') (loader_classList p)\<rparr>)"
  by (simp add: askQuestion_def Let_def)

lemma hidden_classList_remove: "js ''hidden'' \<notin> set (classList_remove (js ''hidden'') ts)"
  by (simp add: classList_remove_def)

lemma hidden_classList_add: "js ''hidden'' \<in> set (classList_add (js ''hidden'') ts)"
  by (simp add: classList_add_def)

lemma classList_add_idem [simp]:
  "classList_add t (classList_add t ts) = classList_add t ts"
  by (simp add: classList_add_def)

lemma on_error_eq:
  "on_error err p =
     p\<lparr>loader_classList := classList_add (js ''hidden'') (loader_classList p),
       response_innerText := js '' Error connecting to server.'',
       console_error := console_error p @ [err]\<rparr>"
  by (simp add: on_error_def Let_def)

lemma fetch_simps [simp]:
  "question_value (fetch r p) = question_value p"
  "response_innerText (fetch r p) = response_innerText p"
  "loader_classList (fetch r p) = loader_classList p"
  "console_error (fetch r p) = console_error p"
  "requests (fetch r p) = requests p @ [r]"
  "pending (fetch r p) = (pending p)(length (requests p) \<mapsto> AwaitingFetch)"
  by (simp_all add: fetch_def)

lemma settled_simps [simp]:
  "question_value (settled i p) = question_value p"
  "response_innerText (settled i p) = response_innerText p"
  "loader_classList (settled i p) = loader_classList p"
  "console_error (settled i p) = console_error p"
  "requests (settled i p) = requests p"
  "pending (settled i p) = (pending p)(i := None)"
  by (simp_all add: settled_def)

lemma on_error_simps [simp]:
  "question_value (on_error err p) = question_value p"
  "response_innerText (on_error err p) = js '' Error connecting to server.''"
  "loader_classList (on_error err p) = classList_add (js ''hidden'') (loader_classList p)"
  "console_error (on_error err p) = console_error p @ [err]"
  "requests (on_error err p) = requests p"
  "pending (on_error err p) = pending p"
  by (simp_all add: on_error_eq)

lemma then_catch_eq:
  "then_catch d p =
     (case response_of d of
        Inl e \<Rightarrow> on_error e (p\<lparr>loader_classList := classList_add (js ''hidden'') (loader_classList p)\<rparr>)
      | Inr v \<Rightarrow>
          (case to_DOMString v of
             Inl e \<Rightarrow> on_error e (p\<lparr>loader_classList := classList_add (js ''hidden'') (loader_classList p)\<rparr>)
           | Inr s \<Rightarrow> p\<lparr>loader_classList := classList_add (js ''hidden'') (loader_classList p),
                       response_innerText := s\<rparr>))"
  by (simp add: then_catch_def on_data_def Let_def split: sum.splits)

lemma then_catch_simps [simp]:
  "question_value (then_catch d p) = question_value p"
  "loader_classList (then_catch d p) = classList_add (js ''hidden'') (loader_classList p)"
  "requests (then_catch d p) = requests p"
  "pending (then_catch d p) = pending p"
  by (simp_all add: then_catch_eq split: sum.splits)

lemma askQuestion_question_value: "question_value (askQuestion p) = question_value p"
  by (simp add: askQuestion_def Let_def)

lemma pending_askQuestion_valid:
  "trim (question_value p) \<noteq> [] \<Longrightarrow>
   pending (askQuestion p) (length (requests p)) = Some AwaitingFetch"
  by (simp add: askQuestion_valid)

lemma last_request:
  "trim (question_value p) \<noteq> [] \<Longrightarrow>
   last (requests (askQuestion p)) =
     \<lparr>req_url = js ''/ask'', req_method = js ''POST'',
      req_headers = [(js ''Content-Type'', js ''application/json'')],
      req_body = JSON_stringify (Obj [(js ''question'', Str (trim (question_value p)))])\<rparr>"
  by (simp add: askQuestion_valid)

lemma stringify_question:
  "JSON_stringify (Obj [(js ''question'', Str q)]) =
     Some (js ''{\"question\":'' @ QuoteJSONString q @ js ''}'')"
  by (simp add: js_def QuoteJSONString_def escape_unit_def is_leading_surrogate_def
      is_trailing_surrogate_def)

subsection \<open>Events, one at a time and in sequence\<close>

lemma step_requests: "e \<noteq> AskQuestion \<Longrightarrow> requests (step e p) = requests p"
  by (cases e) simp_all

lemma step_question_value: "\<forall>v. e \<noteq> Edit v \<Longrightarrow> question_value (step e p) = question_value p"
  by (cases e) (simp_all add: askQuestion_def Let_def)

lemma step_loader:
  "\<not> completes e p \<Longrightarrow> \<not> loader_hidden p \<Longrightarrow> \<not> loader_hidden (step e p)"
  by (cases e) (simp_all add: loader_hidden_def askQuestion_def Let_def hidden_classList_remove)

lemma run_loader:
  "completes_none es p \<Longrightarrow> \<not> loader_hidden p \<Longrightarrow> \<not> loader_hidden (run es p)"
  by (induction es arbitrary: p) (simp_all add: run_def step_loader)

lemma step_pending_dom: "e \<noteq> AskQuestion \<Longrightarrow> dom (pending (step e p)) \<subseteq> dom (pending p)"
  by (cases e) (auto split: if_splits)

lemma run_pending_dom:
  "AskQuestion \<notin> set es \<Longrightarrow> dom (pending (run es p)) \<subseteq> dom (pending p)"
proof (induction es arbitrary: p)
  case Nil
  then show ?case by (simp add: run_def)
next
  case (Cons e es)
  then have "dom (pending (run es (step e p))) \<subseteq> dom (pending (step e p))" by simp
  moreover from Cons.prems have "e \<noteq> AskQuestion" by auto
  then have "dom (pending (step e p)) \<subseteq> dom (pending p)" by (rule step_pending_dom)
  ultimately show ?case by (simp add: run_def)
qed

lemma completes_only_request:
  "completes e p \<Longrightarrow> dom (pending p) \<subseteq> {i} \<Longrightarrow> dom (pending (step e p)) = {}"
  by (cases e) (auto split: if_splits)

lemma run_loader_single:
  "\<not> loader_hidden p \<Longrightarrow> dom (pending p) \<subseteq> {i} \<Longrightarrow> AskQuestion \<notin> set es \<Longrightarrow>
   pending (run es p) i \<noteq> None \<Longrightarrow> \<not> loader_hidden (run es p)"
proof (induction es arbitrary: p)
  case Nil
  then show ?case by (simp add: run_def)
next
  case (Cons e es)
  have run: "run (e # es) p = run es (step e p)" by (simp add: run_def)
  from Cons.prems have noask: "e \<noteq> AskQuestion" "AskQuestion \<notin> set es" by auto
  show ?case
  proof (cases "completes e p")
    case True
    from True Cons.prems(2) have "dom (pending (step e p)) = {}" by (rule completes_only_request)
    with run_pending_dom [OF noask(2), of "step e p"]
    have "pending (run es (step e p)) i = None" by auto
    with Cons.prems(4) run show ?thesis by simp
  next
    case False
    with Cons.prems(1) have "\<not> loader_hidden (step e p)" by (simp add: step_loader)
    moreover from step_pending_dom [OF noask(1), of p] Cons.prems(2)
    have "dom (pending (step e p)) \<subseteq> {i}" by blast
    moreover from Cons.prems(4) run have "pending (run es (step e p)) i \<noteq> None" by simp
    ultimately have "\<not> loader_hidden (run es (step e p))" using noask(2) by (intro Cons.IH)
    with run show ?thesis by simp
  qed
qed

subsection \<open>Settled requests\<close>

lemma settle_json:
  "pending p i = Some AwaitingFetch \<Longrightarrow>
   settle i (Replied status (Json data)) p = then_catch data (settled i p)"
  by (simp add: settled_def)

lemma settle_failure:
  "pending p i = Some AwaitingFetch \<Longrightarrow>
   out = Unreachable err \<or> out = Replied status (NotJson err) \<Longrightarrow>
   settle i out p = on_error err (settled i p)"
  by (auto simp: settled_def)

lemma settle_loader:
  "pending p i = Some AwaitingFetch \<Longrightarrow> loader_hidden (settle i out p)"
  by (cases "(i, out, p)" rule: settle.cases)
     (simp_all add: loader_hidden_def hidden_classList_add)

lemma settle_status: "settle i (Replied status b) p = settle i (Replied status' b) p"
  by (cases b) simp_all

lemma settle_text:
  "pending p i = Some AwaitingFetch \<Longrightarrow> response_innerText (settle i out p) = text_shown out"
  by (cases "(i, out, p)" rule: settle.cases)
     (simp_all add: text_shown_def then_catch_eq split: sum.splits)

lemma settle_question_value: "question_value (settle i out p) = question_value p"
  by (cases "(i, out, p)" rule: settle.cases) (simp_all add: step_question_value)

lemma settle_requests: "requests (settle i out p) = requests p"
  by (cases "(i, out, p)" rule: settle.cases) (simp_all add: step_requests)

lemma ask_and_await_valid:
  assumes "trim (question_value p) \<noteq> []"
  shows "ask_and_await server p =
           settle (length (requests p)) (server (last (requests (askQuestion p)))) (askQuestion p)"
proof -
  from assms have "requests (askQuestion p) \<noteq> requests p" by (simp add: askQuestion_valid)
  then show ?thesis by (simp add: ask_and_await_def Let_def)
qed

lemma ask_and_await_text:
  assumes "trim (question_value p) \<noteq> []"
  shows "response_innerText (ask_and_await server p) =
           text_shown (server (last (requests (askQuestion p))))"
  unfolding ask_and_await_valid [OF assms]
  using assms by (intro settle_text pending_askQuestion_valid)

lemma ask_and_await_question_value:
  "question_value (ask_and_await server p) = question_value p"
  by (simp add: ask_and_await_def Let_def settle_question_value askQuestion_question_value)

subsection \<open>The example pages, evaluated\<close>

lemma trim_typed: "trim (question_value typed_page) = js ''hi there''"
  by (simp add: typed_page_def trim_def js_def is_white_space_def)

lemma pending_typed: "pending (askQuestion typed_page) 0 = Some AwaitingFetch"
  using pending_askQuestion_valid [of typed_page]
  by (simp add: trim_typed) (simp add: typed_page_def js_def)

lemma console_typed: "console_error (askQuestion typed_page) = []"
  using askQuestion_valid [of typed_page] by (simp add: trim_typed js_def) (simp add: typed_page_def)

lemma asked_typed:
  "loader_classList (askQuestion typed_page) = [js ''spinner'']"
  "pending (askQuestion typed_page) = [0 \<mapsto> AwaitingFetch]"
  "length (requests (askQuestion typed_page)) = 1"
proof -
  have ne: "trim (question_value typed_page) \<noteq> []" by (simp add: trim_typed js_def)
  have r: "requests typed_page = []" "pending typed_page = Map.empty"
    "loader_classList typed_page = [js ''spinner'', js ''hidden'']"
    by (simp_all add: typed_page_def)
  show "loader_classList (askQuestion typed_page) = [js ''spinner'']"
    by (simp add: askQuestion_valid [OF ne] r) (simp add: classList_remove_def js_def)
  show "pending (askQuestion typed_page) = [0 \<mapsto> AwaitingFetch]"
    by (simp add: askQuestion_valid [OF ne] r)
  show "length (requests (askQuestion typed_page)) = 1"
    by (simp add: askQuestion_valid [OF ne] r)
qed

lemma typed_twice:
  "loader_classList (askQuestion (askQuestion typed_page)) = [js ''spinner'']"
  "pending (askQuestion (askQuestion typed_page)) 0 = Some AwaitingFetch"
  "pending (askQuestion (askQuestion typed_page)) (Suc 0) = Some AwaitingFetch"
proof -
  have "trim (question_value typed_page) \<noteq> []" by (simp add: trim_typed js_def)
  then have ne: "trim (question_value (askQuestion typed_page)) \<noteq> []"
    by (simp add: askQuestion_question_value)
  show "loader_classList (askQuestion (askQuestion typed_page)) = [js ''spinner'']"
    by (simp add: askQuestion_valid [OF ne] asked_typed) (simp add: classList_remove_def js_def)
  show "pending (askQuestion (askQuestion typed_page)) 0 = Some AwaitingFetch"
    by (simp add: askQuestion_valid [OF ne] asked_typed)
  show "pending (askQuestion (askQuestion typed_page)) (Suc 0) = Some AwaitingFetch"
    by (simp add: askQuestion_valid [OF ne] asked_typed)
qed

lemma map_of_response: "map_of [(js ''response'', v)] (js ''response'') = Some v"
  by simp

subsection \<open>Claims\<close>

text \<open>
  Claim C1. For every input that is empty or consists only of white space, that is, whose
  trimmed value is empty, \<^verbatim>\<open>askQuestion\<close> issues no network request, sets the text of the
  output element to the fixed validation message and returns at once: nothing else on the
  page changes and no continuation is registered.
\<close>

theorem askQuestion_blank_input:
  assumes "trim (question_value p) = [] \<or> list_all is_white_space (question_value p)"
  shows "askQuestion p = p\<lparr>response_innerText := js '' Please enter a question.''\<rparr> \<and>
         requests (askQuestion p) = requests p \<and>
         pending (askQuestion p) = pending p \<and>
         response_innerText (askQuestion p) = js '' Please enter a question.''"
proof -
  from assms have "trim (question_value p) = []" by (simp add: trim_Nil_iff)
  then have "askQuestion p = p\<lparr>response_innerText := js '' Please enter a question.''\<rparr>"
    by (rule askQuestion_empty)
  then show ?thesis by simp
qed

theorem askQuestion_blank_input_witness:
  "list_all is_white_space (question_value blank_page) \<and>
   response_innerText (askQuestion blank_page) = js '' Please enter a question.'' \<and>
   requests (askQuestion blank_page) = [ask_request] \<and>
   pending (askQuestion blank_page) = [0 \<mapsto> AwaitingFetch] \<and>
   loader_classList (askQuestion blank_page) = [js ''spinner'']"
proof -
  have h: "trim (question_value blank_page) = [] \<or>
           list_all is_white_space (question_value blank_page)"
    by (simp add: blank_page_def is_white_space_def)
  have w: "list_all is_white_space (question_value blank_page)"
    by (simp add: blank_page_def is_white_space_def)
  from askQuestion_blank_input [OF h] w show ?thesis
    by (simp add: blank_page_def)
qed

text \<open>
  Claim C2. For every input whose trimmed value is not empty, \<^verbatim>\<open>askQuestion\<close> issues
  exactly one request: method \<^verbatim>\<open>POST\<close>, the single header
  \<^verbatim>\<open>Content-Type: application/json\<close>, target \<^verbatim>\<open>/ask\<close>, and as body the JSON encoding of the
  object \<^verbatim>\<open>{ question: <trimmed input> }\<close>, which is \<^verbatim>\<open>{"question":\<close> followed by the quoted
  string and \<^verbatim>\<open>}\<close>. Whatever the outcome of the request, its continuations issue no
  further request.
\<close>

theorem askQuestion_request:
  assumes "trim (question_value p) \<noteq> []"
  shows "requests (askQuestion p) =
           requests p @
           [\<lparr>req_url = js ''/ask'', req_method = js ''POST'',
             req_headers = [(js ''Content-Type'', js ''application/json'')],
             req_body = JSON_stringify (Obj [(js ''question'', Str (trim (question_value p)))])\<rparr>] \<and>
         JSON_stringify (Obj [(js ''question'', Str (trim (question_value p)))]) =
           Some (js ''{\"question\":'' @ QuoteJSONString (trim (question_value p)) @ js ''}'') \<and>
         requests (settle (length (requests p)) out (askQuestion p)) = requests (askQuestion p)"
proof -
  from assms have "requests (askQuestion p) =
      requests p @
      [\<lparr>req_url = js ''/ask'', req_method = js ''POST'',
        req_headers = [(js ''Content-Type'', js ''application/json'')],
        req_body = JSON_stringify (Obj [(js ''question'', Str (trim (question_value p)))])\<rparr>]"
    by (simp add: askQuestion_valid)
  then show ?thesis using stringify_question settle_requests by blast
qed

theorem askQuestion_request_witness:
  "trim (question_value typed_page) = js ''hi there'' \<and>
   requests (askQuestion typed_page) = [ask_request] \<and>
   requests (settle 0 (Unreachable connection_refused) (askQuestion typed_page)) = [ask_request]"
proof -
  have ne: "trim (question_value typed_page) \<noteq> []"
    by (simp add: trim_typed js_def)
  have q: "QuoteJSONString (js ''hi there'') = js ''\"hi there\"''"
    by (simp add: js_def QuoteJSONString_def escape_unit_def is_leading_surrogate_def
        is_trailing_surrogate_def)
  have len: "length (requests typed_page) = 0" "requests typed_page = []"
    by (simp_all add: typed_page_def)
  from askQuestion_request [OF ne, of "Unreachable connection_refused"]
  show ?thesis
    unfolding trim_typed len by (simp add: ask_request_def q) (simp add: js_def)
qed

text \<open>
  The claim as stated fails for an object whose \<^verbatim>\<open>response\<close> property has no string
  conversion: on the reply \<^verbatim>\<open>{"response": {"toString": null}}\<close> the assignment to
  \<^verbatim>\<open>innerText\<close> throws a \<^verbatim>\<open>TypeError\<close>, the \<^verbatim>\<open>catch\<close> callback runs, and the output is
  the fixed error message.
\<close>

theorem json_object_unprintable_counterexample:
  "pending (askQuestion typed_page) 0 = Some AwaitingFetch \<and>
   to_DOMString (Obj [(js ''toString'', Null)]) = Inl TypeError_to_primitive \<and>
   response_innerText (settle 0 unprintable_reply (askQuestion typed_page)) =
     js '' Error connecting to server.'' \<and>
   console_error (settle 0 unprintable_reply (askQuestion typed_page)) = [TypeError_to_primitive]"
proof -
  have c: "console_error (askQuestion typed_page) = []"
    using askQuestion_valid [of typed_page] by (simp add: trim_typed js_def) (simp add: typed_page_def)
  have d: "to_DOMString (Obj [(js ''toString'', Null)]) = Inl TypeError_to_primitive"
    by (simp add: to_DOMString_def)
  show ?thesis
    unfolding unprintable_reply_def settle_json [OF pending_typed]
    using c d pending_typed by (simp add: then_catch_eq response_of_def)
qed

text \<open>
  Claim C3, as amended. For every response, of any status, whose body parses as a JSON
  object, the handler hides the loading indicator. It sets the text of the output element
  to the string the \<^verbatim>\<open>innerText\<close> setter makes of the object's \<^verbatim>\<open>response\<close> property
  whenever that conversion does not throw, and then logs nothing; in particular a
  \<^verbatim>\<open>response\<close> property that is a string is shown as it is, so that the reply
  \<^verbatim>\<open>{"response": "42"}\<close> leaves the text \<^verbatim>\<open>42\<close>.
\<close>

theorem json_object_shown:
  assumes "pending p i = Some AwaitingFetch"
  shows "loader_hidden (settle i (Replied status (Json (Obj props))) p) \<and>
         (to_DOMString (case map_of props (js ''response'') of None \<Rightarrow> Undefined | Some v \<Rightarrow> v)
            = Inr s \<longrightarrow>
          response_innerText (settle i (Replied status (Json (Obj props))) p) = s \<and>
          console_error (settle i (Replied status (Json (Obj props))) p) = console_error p) \<and>
         (map_of props (js ''response'') = Some (Str t) \<longrightarrow>
          response_innerText (settle i (Replied status (Json (Obj props))) p) = t)"
proof -
  have eq: "settle i (Replied status (Json (Obj props))) p = then_catch (Obj props) (settled i p)"
    using assms by (rule settle_json)
  have "loader_hidden (settle i (Replied status (Json (Obj props))) p)"
    using assms by (rule settle_loader)
  moreover have "to_DOMString (case map_of props (js ''response'') of None \<Rightarrow> Undefined | Some v \<Rightarrow> v)
            = Inr s \<longrightarrow>
          response_innerText (settle i (Replied status (Json (Obj props))) p) = s \<and>
          console_error (settle i (Replied status (Json (Obj props))) p) = console_error p"
    unfolding eq by (simp add: then_catch_eq response_of_def)
  moreover have "map_of props (js ''response'') = Some (Str t) \<longrightarrow>
          response_innerText (settle i (Replied status (Json (Obj props))) p) = t"
    unfolding eq by (simp add: then_catch_eq response_of_def to_DOMString_def)
  ultimately show ?thesis by blast
qed

theorem json_object_shown_witness:
  "pending (askQuestion typed_page) 0 = Some AwaitingFetch \<and>
   loader_hidden (settle 0 (Replied 200 (Json (Obj [(js ''response'', Str (js ''42''))])))
     (askQuestion typed_page)) \<and>
   response_innerText (settle 0 (Replied 200 (Json (Obj [(js ''response'', Str (js ''42''))])))
     (askQuestion typed_page)) = js ''42''"
  using json_object_shown [OF pending_typed, of 200 "[(js ''response'', Str (js ''42''))]" "js ''42''" "js ''42''"]
    pending_typed
  by (simp only: map_of_response)

text \<open>
  Claim C4. For every failure of the request (no response arrives) or of the parsing of
  the response body as JSON, the handler hides the loading indicator, sets the text of the
  output element to the fixed error message and appends the failure to the console log;
  the page changes in nothing else, so the failure detail reaches the console only.
\<close>

theorem failure_shows_error:
  assumes "pending p i = Some AwaitingFetch"
    and "out = Unreachable err \<or> out = Replied status (NotJson err)"
  shows "settle i out p =
           p\<lparr>pending := (pending p)(i := None),
             loader_classList := classList_add (js ''hidden'') (loader_classList p),
             response_innerText := js '' Error connecting to server.'',
             console_error := console_error p @ [err]\<rparr> \<and>
         loader_hidden (settle i out p) \<and>
         response_innerText (settle i out p) = js '' Error connecting to server.'' \<and>
         console_error (settle i out p) = console_error p @ [err]"
proof -
  have "settle i out p = on_error err (settled i p)"
    using assms by (rule settle_failure)
  moreover have "loader_hidden (settle i out p)" using assms(1) by (rule settle_loader)
  ultimately show ?thesis by (simp add: on_error_eq settled_def)
qed

theorem failure_shows_error_witness:
  "pending (askQuestion typed_page) 0 = Some AwaitingFetch \<and>
   loader_hidden (settle 0 (Unreachable connection_refused) (askQuestion typed_page)) \<and>
   response_innerText (settle 0 (Unreachable connection_refused) (askQuestion typed_page)) =
     js '' Error connecting to server.'' \<and>
   console_error (settle 0 (Unreachable connection_refused) (askQuestion typed_page)) =
     [connection_refused] \<and>
   loader_hidden (settle 0 (Replied 200 (NotJson unexpected_token)) (askQuestion typed_page)) \<and>
   response_innerText (settle 0 (Replied 200 (NotJson unexpected_token)) (askQuestion typed_page)) =
     js '' Error connecting to server.'' \<and>
   console_error (settle 0 (Replied 200 (NotJson unexpected_token)) (askQuestion typed_page)) =
     [unexpected_token]"
proof -
  have c: "console_error (askQuestion typed_page) = []"
    using askQuestion_valid [of typed_page] by (simp add: trim_typed js_def) (simp add: typed_page_def)
  from failure_shows_error [OF pending_typed, of "Unreachable connection_refused" connection_refused 0]
    failure_shows_error [OF pending_typed, of "Replied 200 (NotJson unexpected_token)" unexpected_token 200]
    pending_typed c
  show ?thesis by simp
qed

text \<open>
  Claim C5 as stated fails: a response with status 500 is not a failure for the handler.
  With the JSON body \<^verbatim>\<open>{"error": "boom"}\<close> the success callback runs, the output reads
  \<^verbatim>\<open>undefined\<close> and nothing is logged, while an unreachable server gives the fixed error
  message.
\<close>

theorem status_500_json_counterexample:
  "response_innerText (settle 0 server_error_reply (askQuestion typed_page)) = js ''undefined'' \<and>
   response_innerText (settle 0 server_error_reply (askQuestion typed_page)) \<noteq>
     js '' Error connecting to server.'' \<and>
   console_error (settle 0 server_error_reply (askQuestion typed_page)) = [] \<and>
   response_innerText (settle 0 (Unreachable connection_refused) (askQuestion typed_page)) =
     js '' Error connecting to server.'' \<and>
   console_error (settle 0 (Unreachable connection_refused) (askQuestion typed_page)) =
     [connection_refused]"
proof -
  have u: "response_innerText (settle 0 server_error_reply (askQuestion typed_page)) = js ''undefined''"
    unfolding server_error_reply_def settle_json [OF pending_typed]
    by (simp add: then_catch_eq response_of_def to_DOMString_def) (simp add: js_def)
  have c: "console_error (settle 0 server_error_reply (askQuestion typed_page)) = []"
    unfolding server_error_reply_def settle_json [OF pending_typed]
    by (simp add: then_catch_eq response_of_def to_DOMString_def console_typed)
  have f: "settle 0 (Unreachable connection_refused) (askQuestion typed_page) =
      on_error connection_refused (settled 0 (askQuestion typed_page))"
    using pending_typed by (rule settle_failure) simp
  have n: "js ''undefined'' \<noteq> js '' Error connecting to server.''" by (simp add: js_def)
  show ?thesis unfolding u c f using n by (simp add: console_typed)
qed

text \<open>
  Claim C5, as amended. The handler never inspects the HTTP status: a response is treated
  the same whatever its status. A response of any status whose body is not JSON leads to
  the same page as a network failure with the same reason: the fixed error message is
  shown and the loading indicator is hidden.
\<close>

theorem status_ignored:
  "settle i (Replied status b) p = settle i (Replied status' b) p \<and>
   (pending p i = Some AwaitingFetch \<longrightarrow>
      settle i (Replied status (NotJson err)) p = settle i (Unreachable err) p \<and>
      loader_hidden (settle i (Replied status (NotJson err)) p) \<and>
      response_innerText (settle i (Replied status (NotJson err)) p) =
        js '' Error connecting to server.'')"
proof -
  have "settle i (Replied status b) p = settle i (Replied status' b) p" by (rule settle_status)
  moreover have "pending p i = Some AwaitingFetch \<longrightarrow>
      settle i (Replied status (NotJson err)) p = settle i (Unreachable err) p \<and>
      loader_hidden (settle i (Replied status (NotJson err)) p) \<and>
      response_innerText (settle i (Replied status (NotJson err)) p) =
        js '' Error connecting to server.''"
    by (simp add: settled_def loader_hidden_def hidden_classList_add)
  ultimately show ?thesis by blast
qed

theorem status_ignored_witness:
  "pending (askQuestion typed_page) 0 = Some AwaitingFetch \<and>
   settle 0 (Replied 500 (Json (Obj [(js ''response'', Str (js ''42''))]))) (askQuestion typed_page) =
     settle 0 (Replied 200 (Json (Obj [(js ''response'', Str (js ''42''))]))) (askQuestion typed_page) \<and>
   settle 0 (Replied 500 (NotJson unexpected_token)) (askQuestion typed_page) =
     settle 0 (Unreachable unexpected_token) (askQuestion typed_page) \<and>
   response_innerText (settle 0 (Replied 500 (NotJson unexpected_token)) (askQuestion typed_page)) =
     js '' Error connecting to server.''"
  using status_ignored [of 0 500 "Json (Obj [(js ''response'', Str (js ''42''))])" "askQuestion typed_page" 200
      unexpected_token]
    status_ignored [of 0 500 "NotJson unexpected_token" "askQuestion typed_page" 500 unexpected_token]
    pending_typed
  by blast

text \<open>
  Claim C6. For every input whose trimmed value is not empty, the handler calls
  \<^verbatim>\<open>fetch\<close> on a page whose output text is already the empty string and whose loading
  indicator is already revealed, and both still hold when the handler returns.
\<close>

theorem askQuestion_clears_first:
  assumes "trim (question_value p) \<noteq> []"
  shows "askQuestion p =
           fetch \<lparr>req_url = js ''/ask'', req_method = js ''POST'',
                  req_headers = [(js ''Content-Type'', js ''application/json'')],
                  req_body = JSON_stringify (Obj [(js ''question'', Str (trim (question_value p)))])\<rparr>
             (p\<lparr>response_innerText := [],
                loader_classList := classList_remove (js ''hidden'') (loader_classList p)\<rparr>) \<and>
         \<not> loader_hidden
             (p\<lparr>response_innerText := [],
                loader_classList := classList_remove (js ''hidden'') (loader_classList p)\<rparr>) \<and>
         response_innerText (askQuestion p) = [] \<and>
         \<not> loader_hidden (askQuestion p)"
  using assms by (simp add: askQuestion_valid loader_hidden_def hidden_classList_remove)

theorem askQuestion_clears_first_witness:
  "trim (question_value typed_page) \<noteq> [] \<and>
   response_innerText typed_page = js ''old answer'' \<and>
   loader_hidden typed_page \<and>
   response_innerText (askQuestion typed_page) = [] \<and>
   \<not> loader_hidden (askQuestion typed_page) \<and>
   loader_classList (askQuestion typed_page) = [js ''spinner'']"
proof -
  have ne: "trim (question_value typed_page) \<noteq> []" by (simp add: trim_typed js_def)
  have l: "loader_classList (askQuestion typed_page) = [js ''spinner'']"
    by (simp add: askQuestion_valid [OF ne]) (simp add: typed_page_def classList_remove_def js_def)
  from askQuestion_clears_first [OF ne] ne l show ?thesis
    by (simp add: typed_page_def loader_hidden_def)
qed

text \<open>
  Claim C7. Submitting the same valid question twice in sequence, each submission awaited
  to completion, leaves the same text in the output element both times, when the server
  answers equal requests in the same way.
\<close>

theorem ask_twice_same_text:
  assumes "trim (question_value p) \<noteq> []"
  shows "response_innerText (ask_and_await server (ask_and_await server p)) =
         response_innerText (ask_and_await server p)"
proof -
  let ?p1 = "ask_and_await server p"
  have q: "question_value ?p1 = question_value p" by (rule ask_and_await_question_value)
  with assms have valid: "trim (question_value ?p1) \<noteq> []" by simp
  have "last (requests (askQuestion ?p1)) = last (requests (askQuestion p))"
    by (simp only: last_request [OF valid] last_request [OF assms] q)
  then show ?thesis
    by (simp only: ask_and_await_text [OF valid] ask_and_await_text [OF assms])
qed

theorem ask_twice_same_text_witness:
  "trim (question_value typed_page) \<noteq> [] \<and>
   response_innerText (ask_and_await answer_42 typed_page) = js ''42'' \<and>
   response_innerText (ask_and_await answer_42 (ask_and_await answer_42 typed_page)) = js ''42''"
proof -
  have ne: "trim (question_value typed_page) \<noteq> []" by (simp add: trim_typed js_def)
  have t: "response_innerText (ask_and_await answer_42 typed_page) = js ''42''"
    unfolding ask_and_await_text [OF ne]
    by (simp add: answer_42_def text_shown_def response_of_def to_DOMString_def)
  from ask_twice_same_text [OF ne, of answer_42] ne t show ?thesis by simp
qed

text \<open>
  Claim C8 as stated fails when two requests overlap. After two valid submissions both
  requests are in flight and the loader is visible; when the second request fails, its
  \<^verbatim>\<open>catch\<close> callback hides the loader although the first request has neither succeeded
  nor failed.
\<close>

theorem overlapping_requests_counterexample:
  "pending (askQuestion (askQuestion typed_page)) 0 = Some AwaitingFetch \<and>
   \<not> loader_hidden (askQuestion (askQuestion typed_page)) \<and>
   pending (step (FetchRejected 1 connection_refused) (askQuestion (askQuestion typed_page))) 0 =
     Some AwaitingFetch \<and>
   loader_hidden (step (FetchRejected 1 connection_refused) (askQuestion (askQuestion typed_page)))"
  by (simp add: typed_twice loader_hidden_def hidden_classList_add) (simp add: js_def)

text \<open>
  Claim C8, as amended. There is no timeout: a visible loading indicator stays visible
  over any sequence of events, however long, in which no success or failure continuation
  of any request runs. In particular, when one request is the only one in flight and the
  handler is not invoked again, the indicator stays visible for as long as that request
  has neither succeeded nor failed.
\<close>

theorem loader_stays_visible:
  "(\<not> loader_hidden p \<and> completes_none es p \<longrightarrow> \<not> loader_hidden (run es p)) \<and>
   (\<not> loader_hidden p \<and> dom (pending p) \<subseteq> {i} \<and> AskQuestion \<notin> set es \<and>
    pending (run es p) i \<noteq> None \<longrightarrow> \<not> loader_hidden (run es p))"
  using run_loader [of es p] run_loader_single [of p i es] by blast

theorem loader_stays_visible_witness:
  "\<not> loader_hidden (askQuestion typed_page) \<and>
   completes_none quiet_events (askQuestion typed_page) \<and>
   \<not> loader_hidden (run quiet_events (askQuestion typed_page)) \<and>
   dom (pending (askQuestion typed_page)) \<subseteq> {0} \<and>
   AskQuestion \<notin> set [FetchFulfilled 0 200, Edit (js ''next'')] \<and>
   pending (run [FetchFulfilled 0 200, Edit (js ''next'')] (askQuestion typed_page)) 0 \<noteq> None \<and>
   \<not> loader_hidden (run [FetchFulfilled 0 200, Edit (js ''next'')] (askQuestion typed_page))"
proof -
  have ne: "trim (question_value typed_page) \<noteq> []" by (simp add: trim_typed js_def)
  have r: "requests typed_page = []" "pending typed_page = Map.empty"
    "loader_classList typed_page = [js ''spinner'', js ''hidden'']"
    by (simp_all add: typed_page_def)
  have v: "\<not> loader_hidden (askQuestion typed_page)"
    by (simp add: askQuestion_valid [OF ne] loader_hidden_def hidden_classList_remove)
  have t: "trim (js ''next'') \<noteq> []" by (simp add: trim_def js_def is_white_space_def)
  have c: "completes_none quiet_events (askQuestion typed_page)"
    by (simp add: quiet_events_def pending_typed askQuestion_def [of "_\<lparr>question_value := js ''next''\<rparr>"] t
        Let_def)
  have d: "dom (pending (askQuestion typed_page)) \<subseteq> {0}"
    by (simp add: askQuestion_valid [OF ne] r)
  have n: "pending (run [FetchFulfilled 0 200, Edit (js ''next'')] (askQuestion typed_page)) 0 \<noteq> None"
    by (simp add: run_def pending_typed)
  from loader_stays_visible [of "askQuestion typed_page" quiet_events 0]
    loader_stays_visible [of "askQuestion typed_page" "[FetchFulfilled 0 200, Edit (js ''next'')]" 0]
    v c d n
  show ?thesis by simp
qed

text \<open>
  Claim C9. On every path the handler only reads the value of the text input: the
  synchronous part (validation failure or request issued), the success callback with the
  \<^verbatim>\<open>catch\<close> after it, the \<^verbatim>\<open>catch\<close> callback, and so every event but the user's own edit
  and every settlement of a request leave the value as it was.
\<close>

theorem input_untouched:
  "question_value (askQuestion p) = question_value p \<and>
   question_value (then_catch d p) = question_value p \<and>
   question_value (on_error err p) = question_value p \<and>
   ((\<forall>v. e \<noteq> Edit v) \<longrightarrow> question_value (step e p) = question_value p) \<and>
   question_value (settle i out p) = question_value p"
  by (simp add: askQuestion_question_value step_question_value settle_question_value)

theorem input_untouched_witness:
  "question_value (askQuestion blank_page) = question_value blank_page \<and>
   question_value (askQuestion typed_page) = question_value typed_page \<and>
   question_value (step (FetchRejected 0 connection_refused) (askQuestion typed_page)) =
     question_value (askQuestion typed_page) \<and>
   question_value (settle 0 (answer_42 ask_request) (askQuestion typed_page)) =
     question_value (askQuestion typed_page)"
  using input_untouched [of blank_page] input_untouched [of typed_page]
    input_untouched [where p = "askQuestion typed_page"
      and e = "FetchRejected 0 connection_refused" and i = 0 and out = "answer_42 ask_request"]
  by simp

text \<open>
  Claim C10. On the validation path (the trimmed input is empty) the handler leaves the
  class list of the loading indicator as it was, and the set of requests in flight too: a
  loader left visible by an earlier request that is still pending stays visible.
\<close>

theorem validation_leaves_loader:
  assumes "trim (question_value p) = []"
  shows "loader_classList (askQuestion p) = loader_classList p \<and>
         loader_hidden (askQuestion p) = loader_hidden p \<and>
         pending (askQuestion p) = pending p"
  using assms by (simp add: askQuestion_empty loader_hidden_def)

theorem validation_leaves_loader_witness:
  "trim (question_value blank_page) = [] \<and>
   pending blank_page 0 = Some AwaitingFetch \<and>
   \<not> loader_hidden blank_page \<and>
   loader_classList (askQuestion blank_page) = [js ''spinner''] \<and>
   \<not> loader_hidden (askQuestion blank_page) \<and>
   pending (askQuestion blank_page) 0 = Some AwaitingFetch"
proof -
  have e: "trim (question_value blank_page) = []"
    by (simp add: trim_Nil_iff blank_page_def is_white_space_def)
  have v: "\<not> loader_hidden blank_page" by (simp add: loader_hidden_def blank_page_def js_def)
  from validation_leaves_loader [OF e] e v show ?thesis by (simp add: blank_page_def)
qed

end
